theory Spec2Isabelle
  imports Main "HOL-Library.AList"
begin

section \<open>Python values and errors\<close>

text \<open>
  The program handles the results of \<^verbatim>\<open>json.loads\<close> and of the boto3 clients, which
  are dynamically typed. A parsed JSON document is a value of \<open>json\<close>; a Python dict is an
  association list in insertion order. Every exception the source can raise is a value of
  \<open>py_error\<close>, and a computation that may raise returns \<open>py_error + 'a\<close>.
\<close>

datatype json =
    JNull
  | JBool bool
  | JInt int
  | JFloat int int
  | JStr string
  | JList "json list"
  | JDict "(string \<times> json) list"

datatype py_error =
    KeyError
  | TypeError
  | IndexError
  | AttributeError
  | JSONDecodeError
  | ClientError

type_synonym 'a result = "py_error + 'a"

type_synonym dict = "(string \<times> json) list"

text \<open>Sequencing of two computations: the first exception raised ends the run.\<close>

definition and_then :: "'a result \<Rightarrow> ('a \<Rightarrow> 'b result) \<Rightarrow> 'b result" where
  "and_then m f = (case m of Inl e \<Rightarrow> Inl e | Inr x \<Rightarrow> f x)"

text \<open>\<^verbatim>\<open>d[k]\<close> for a string key: KeyError on a dict without the key, TypeError on
  every other JSON value (a list, a string, a number, \<^verbatim>\<open>None\<close>).\<close>

fun getitem :: "json \<Rightarrow> string \<Rightarrow> json result" where
  "getitem (JDict kvs) k = (case map_of kvs k of None \<Rightarrow> Inl KeyError | Some v \<Rightarrow> Inr v)"
| "getitem _ k = Inl TypeError"

text \<open>\<^verbatim>\<open>d[k]\<close> on a value known to be a dict.\<close>

definition dict_get :: "dict \<Rightarrow> string \<Rightarrow> json result" where
  "dict_get d k = (case map_of d k of None \<Rightarrow> Inl KeyError | Some v \<Rightarrow> Inr v)"

text \<open>\<^verbatim>\<open>xs[i]\<close> on a list, for an index that is not negative.\<close>

definition list_get :: "'a list \<Rightarrow> nat \<Rightarrow> 'a result" where
  "list_get xs i = (if i < length xs then Inr (xs ! i) else Inl IndexError)"

text \<open>\<^verbatim>\<open>s.replace(old, new)\<close> on a Python string: every occurrence, left to right,
  without overlap.\<close>

function replace_str :: "string \<Rightarrow> string \<Rightarrow> string \<Rightarrow> string" where
  "replace_str old new [] = (if old = [] then new else [])"
| "replace_str old new (c # cs) =
     (if old = [] then new @ c # replace_str old new cs
      else if take (length old) (c # cs) = old
           then new @ replace_str old new (drop (length old) (c # cs))
      else c # replace_str old new cs)"
  by pat_completeness auto
termination
  by (relation "measure (\<lambda>(old, new, s). length s)") auto

text \<open>The method call \<^verbatim>\<open>v.replace(old, new)\<close> on a JSON value: only a string has
  the method.\<close>

fun py_replace :: "json \<Rightarrow> string \<Rightarrow> string \<Rightarrow> string result" where
  "py_replace (JStr s) old new = Inr (replace_str old new s)"
| "py_replace _ old new = Inl AttributeError"

text \<open>\<^verbatim>\<open>s + v\<close> with a string on the left, and \<^verbatim>\<open>v + s\<close> with a string on the
  right: a TypeError unless the other operand is a string too.\<close>

fun str_add :: "string \<Rightarrow> json \<Rightarrow> string result" where
  "str_add s (JStr t) = Inr (s @ t)"
| "str_add s _ = Inl TypeError"

fun add_str :: "json \<Rightarrow> string \<Rightarrow> string result" where
  "add_str (JStr s) t = Inr (s @ t)"
| "add_str _ t = Inl TypeError"

text \<open>\<^verbatim>\<open>(p[1:] if p.startswith('/') else p)\<close>.\<close>

fun strip_leading_slash :: "json \<Rightarrow> json result" where
  "strip_leading_slash (JStr p) =
     Inr (JStr (if take 1 p = ''/'' then drop 1 p else p))"
| "strip_leading_slash _ = Inl AttributeError"

text \<open>\<^verbatim>\<open>len(v)\<close>.\<close>

fun py_len :: "json \<Rightarrow> int result" where
  "py_len (JList xs) = Inr (int (length xs))"
| "py_len (JDict kvs) = Inr (int (length kvs))"
| "py_len (JStr s) = Inr (int (length s))"
| "py_len _ = Inl TypeError"


section \<open>The collaborators\<close>

text \<open>
  A listing entry of \<^verbatim>\<open>list_executions\<close> and the response of
  \<^verbatim>\<open>describe_execution\<close> are dicts with the same keys; \<^verbatim>\<open>stopDate\<close>,
  \<^verbatim>\<open>input\<close> and \<^verbatim>\<open>output\<close> may be absent. A datetime is a number of
  microseconds, and so is the difference of two.
\<close>

record execution =
  d_name :: string
  d_status :: string
  startDate :: int
  stopDate :: "int option"
  executionArn :: string
  d_input :: "string option"
  d_output :: "string option"

text \<open>The library functions the program calls: \<^verbatim>\<open>json.loads\<close>,
  \<^verbatim>\<open>datetime.isoformat\<close> and \<^verbatim>\<open>timedelta.__str__\<close>.\<close>

record pylib =
  loads :: "string \<Rightarrow> json result"
  isoformat :: "int \<Rightarrow> string"
  timedelta_str :: "int \<Rightarrow> string"

text \<open>The Step Functions client. \<open>get_execution_history\<close> gives the list under the
  \<^verbatim>\<open>events\<close> key of the response.\<close>

record step_client =
  describe_execution :: "string \<Rightarrow> execution result"
  get_execution_history :: "string \<Rightarrow> json list result"

text \<open>The S3 client: \<^verbatim>\<open>get_object(Bucket, Key)\<close> followed by reading the body and
  decoding it as UTF-8; a failure of any of the three is an exception.\<close>

type_synonym s3_client = "json \<Rightarrow> json \<Rightarrow> string result"

section \<open>The class StepFunction\<close>

text \<open>
  The class-level defaults of the string attributes are the initial values of the fields.
  \<open>execution_metadata\<close> is \<open>None\<close> for the default \<^verbatim>\<open>''\<close>. The list
  \<open>child_execution_arn\<close> is mutable and declared on the class: the field is the
  instance's own attribute, \<open>None\<close> while the instance has none and the lookup falls
  to the class attribute.
\<close>

record StepFunction =
  name :: string
  status :: string
  start_date_time :: int
  stop_date_time :: int
  execution_arn :: string
  child_execution_arn :: "string list option"
  parent_execution_arn :: string
  execution_metadata :: "execution option"
  collection :: json
  provider :: string
  granule_id :: json

definition class_child_execution_arn :: "string list" where
  "class_child_execution_arn = []"

definition StepFunction_init :: "execution \<Rightarrow> StepFunction result" where
  "StepFunction_init step_execution =
     and_then
       (if d_status step_execution \<noteq> ''SUCCEEDED'' then Inr (startDate step_execution)
        else (case stopDate step_execution of None \<Rightarrow> Inl KeyError | Some t \<Rightarrow> Inr t))
       (\<lambda>stop. Inr \<lparr>name = d_name step_execution,
                     status = d_status step_execution,
                     start_date_time = startDate step_execution,
                     stop_date_time = stop,
                     execution_arn = executionArn step_execution,
                     child_execution_arn = None,
                     parent_execution_arn = ''N/A'',
                     execution_metadata = None,
                     collection = JStr ''N/A'',
                     provider = ''N/A'',
                     granule_id = JStr ''N/A''\<rparr>)"

definition get_duration :: "StepFunction \<Rightarrow> int" where
  "get_duration self = stop_date_time self - start_date_time self"

definition info :: "pylib \<Rightarrow> StepFunction \<Rightarrow> dict" where
  "info lib self =
     [(''status'', JStr (status self)),
      (''start'', JStr (isoformat lib (start_date_time self))),
      (''duration'', JStr (timedelta_str lib (get_duration self))),
      (''parent'', JStr (parent_execution_arn self)),
      (''collection'', collection self),
      (''provider'', JStr (provider self)),
      (''granuleId'', granule_id self)]"

definition get_children :: "StepFunction \<Rightarrow> string list" where
  "get_children self =
     (case child_execution_arn self of None \<Rightarrow> class_child_execution_arn | Some xs \<Rightarrow> xs)"

definition set_parent :: "pylib \<Rightarrow> StepFunction \<Rightarrow> StepFunction result" where
  "set_parent lib self =
     (case execution_metadata self of
        None \<Rightarrow> Inr self
      | Some md \<Rightarrow>
          and_then (case d_input md of None \<Rightarrow> Inl KeyError | Some s \<Rightarrow> Inr s) (\<lambda>meta.
          and_then (loads lib meta) (\<lambda>j.
          and_then (getitem j ''payload'') (\<lambda>p.
          and_then (getitem p ''meta'') (\<lambda>json_dict.
          and_then (getitem json_dict ''source'') (\<lambda>src.
          and_then (py_replace src ''stateMachine'' ''execution'') (\<lambda>arn.
          and_then (getitem json_dict ''execution_name'') (\<lambda>en.
          and_then (str_add (arn @ '':'') en) (\<lambda>parent.
          Inr (self\<lparr>parent_execution_arn := parent\<rparr>))))))))))"

definition set_granule_id :: "pylib \<Rightarrow> StepFunction \<Rightarrow> StepFunction result" where
  "set_granule_id lib self =
     (case execution_metadata self of
        None \<Rightarrow> Inr self
      | Some md \<Rightarrow>
          if d_status md \<noteq> ''SUCCEEDED'' then Inr self
          else
            and_then (case d_output md of None \<Rightarrow> Inl KeyError | Some s \<Rightarrow> Inr s) (\<lambda>meta.
            and_then (loads lib meta) (\<lambda>j.
            and_then (getitem j ''meta'') (\<lambda>m.
            and_then (getitem m ''cnmResponse'') (\<lambda>output.
            and_then (getitem output ''identifier'') (\<lambda>ident.
            Inr (self\<lparr>granule_id := ident\<rparr>)))))))"

definition set_execution_metadata :: "StepFunction \<Rightarrow> execution \<Rightarrow> StepFunction" where
  "set_execution_metadata self md = self\<lparr>execution_metadata := Some md\<rparr>"

definition set_extra_metadata :: "pylib \<Rightarrow> StepFunction \<Rightarrow> StepFunction result" where
  "set_extra_metadata lib self =
     (case execution_metadata self of
        None \<Rightarrow> Inr self
      | Some md \<Rightarrow>
          and_then (case d_input md of None \<Rightarrow> Inl KeyError | Some s \<Rightarrow> Inr s) (\<lambda>lambda_input.
          and_then (loads lib lambda_input) (\<lambda>lambda_input_dict.
          and_then (getitem lambda_input_dict ''meta'') (\<lambda>m1.
          and_then (getitem m1 ''collection'') (\<lambda>c1.
          and_then (getitem c1 ''name'') (\<lambda>coll.
          and_then (getitem lambda_input_dict ''meta'') (\<lambda>m2.
          and_then (getitem m2 ''provider'') (\<lambda>p2.
          and_then (getitem p2 ''protocol'') (\<lambda>protocol.
          and_then (getitem lambda_input_dict ''meta'') (\<lambda>m3.
          and_then (getitem m3 ''provider'') (\<lambda>p3.
          and_then (getitem p3 ''host'') (\<lambda>host.
          and_then (getitem lambda_input_dict ''meta'') (\<lambda>m4.
          and_then (getitem m4 ''collection'') (\<lambda>c4.
          and_then (getitem c4 ''meta'') (\<lambda>cm4.
          and_then (getitem cm4 ''provider_path'') (\<lambda>provider_path.
          and_then (add_str protocol ''://'') (\<lambda>s1.
          and_then (str_add s1 host) (\<lambda>s2.
          and_then (strip_leading_slash provider_path) (\<lambda>tail.
          and_then (str_add (s2 @ ''/'') tail) (\<lambda>uri.
          Inr (self\<lparr>collection := coll, provider := uri\<rparr>)))))))))))))))))))))"

section \<open>build_relation_tree\<close>

text \<open>
  The relation map is a dict from execution ARN to a dict with the keys
  \<^verbatim>\<open>child\<close> and \<^verbatim>\<open>info\<close>. Each element of the child list is a dict with one
  key, the child's ARN. An assignment \<^verbatim>\<open>m[k] = v\<close> is \<open>AList.update\<close>: an
  existing key keeps its place, a new key goes to the end.
\<close>

record node =
  child :: "(string \<times> dict) list list"
  node_info :: dict

type_synonym relation_map = "(string \<times> node) list"

text \<open>The first loop: every element of \<^verbatim>\<open>discover_list\<close> is assigned to its key.\<close>

fun discover_loop :: "pylib \<Rightarrow> StepFunction list \<Rightarrow> relation_map \<Rightarrow> relation_map" where
  "discover_loop lib [] relation_map = relation_map"
| "discover_loop lib (a # as) relation_map =
     discover_loop lib as
       (AList.update (execution_arn a) \<lparr>child = [], node_info = info lib a\<rparr> relation_map)"

text \<open>The body of the second loop, for one element \<open>b\<close> of \<^verbatim>\<open>ingest_list\<close>.\<close>

definition ingest_body ::
  "pylib \<Rightarrow> step_client \<Rightarrow> StepFunction \<Rightarrow> relation_map \<Rightarrow> relation_map result" where
  "ingest_body lib client b0 relation_map =
     and_then (describe_execution client (parent_execution_arn b0)) (\<lambda>execution_input.
     and_then (set_extra_metadata lib (set_execution_metadata b0 execution_input)) (\<lambda>b.
       (case map_of relation_map (parent_execution_arn b) of
          Some nd \<Rightarrow>
            Inr (AList.update (parent_execution_arn b)
                   (nd\<lparr>child := child nd @ [[(execution_arn b, info lib b)]]\<rparr>) relation_map)
        | None \<Rightarrow>
            and_then (StepFunction_init execution_input) (\<lambda>temp_step0.
            and_then (set_extra_metadata lib (set_execution_metadata temp_step0 execution_input))
              (\<lambda>temp_step.
                Inr (AList.update (parent_execution_arn b)
                       \<lparr>child = [[(execution_arn b, info lib b)]],
                        node_info = info lib temp_step\<rparr> relation_map))))))"

fun ingest_loop ::
  "pylib \<Rightarrow> step_client \<Rightarrow> StepFunction list \<Rightarrow> relation_map \<Rightarrow> relation_map result" where
  "ingest_loop lib client [] relation_map = Inr relation_map"
| "ingest_loop lib client (b # bs) relation_map =
     (case ingest_body lib client b relation_map of
        Inl e \<Rightarrow> Inl e
      | Inr relation_map' \<Rightarrow> ingest_loop lib client bs relation_map')"

definition build_relation_tree ::
  "pylib \<Rightarrow> step_client \<Rightarrow> StepFunction list \<Rightarrow> StepFunction list \<Rightarrow> relation_map result" where
  "build_relation_tree lib client discover_list ingest_list =
     ingest_loop lib client ingest_list (discover_loop lib discover_list [])"

text \<open>What the second loop does to one ingestion record before it files it: the record
  with the description of its parent as metadata and the collection and provider read
  from it; and the child entry filed for it.\<close>

definition enriched :: "pylib \<Rightarrow> step_client \<Rightarrow> StepFunction \<Rightarrow> StepFunction result" where
  "enriched lib client b0 =
     and_then (describe_execution client (parent_execution_arn b0)) (\<lambda>execution_input.
       set_extra_metadata lib (set_execution_metadata b0 execution_input))"

definition child_entry :: "pylib \<Rightarrow> step_client \<Rightarrow> StepFunction \<Rightarrow> (string \<times> dict) list" where
  "child_entry lib client b0 =
     (case enriched lib client b0 of
        Inl e \<Rightarrow> []
      | Inr b \<Rightarrow> [(execution_arn b, info lib b)])"

text \<open>The child list filed under a key, empty for a key that is not in the map; and the
  \<^verbatim>\<open>info\<close> of the root that the second loop makes for a parent that is not in the
  map: a record constructed from the parent's description, with the collection and
  provider read from it.\<close>

definition children_of :: "relation_map \<Rightarrow> string \<Rightarrow> (string \<times> dict) list list" where
  "children_of relation_map k =
     (case map_of relation_map k of None \<Rightarrow> [] | Some nd \<Rightarrow> child nd)"

definition synthetic_info :: "pylib \<Rightarrow> step_client \<Rightarrow> string \<Rightarrow> dict result" where
  "synthetic_info lib client p =
     and_then (describe_execution client p) (\<lambda>execution_input.
     and_then (StepFunction_init execution_input) (\<lambda>temp_step0.
     and_then (set_extra_metadata lib (set_execution_metadata temp_step0 execution_input))
       (\<lambda>temp_step. Inr (info lib temp_step))))"

section \<open>append_metadata\<close>

text \<open>\<^verbatim>\<open>json.loads(v)\<close> on a JSON value: a TypeError unless it is a string.\<close>

fun py_loads :: "pylib \<Rightarrow> json \<Rightarrow> json result" where
  "py_loads lib (JStr s) = loads lib s"
| "py_loads lib _ = Inl TypeError"

text \<open>\<^verbatim>\<open>k in v.keys()\<close>: only a dict has the method.\<close>

fun has_key :: "json \<Rightarrow> string \<Rightarrow> bool result" where
  "has_key (JDict kvs) k = Inr (map_of kvs k \<noteq> None)"
| "has_key _ k = Inl AttributeError"

text \<open>The branch taken on a \<^verbatim>\<open>LambdaFunctionSucceeded\<close> event: the value assigned
  to \<^verbatim>\<open>granule_count\<close>.\<close>

definition granule_count :: "pylib \<Rightarrow> s3_client \<Rightarrow> json \<Rightarrow> json result" where
  "granule_count lib s3 ev =
     and_then (getitem ev ''lambdaFunctionSucceededEventDetails'') (\<lambda>details.
     and_then (getitem details ''output'') (\<lambda>output0.
     and_then (py_loads lib output0) (\<lambda>output.
     and_then (has_key output ''payload'') (\<lambda>has_payload.
       if has_payload then
         and_then (getitem output ''meta'') (\<lambda>m.
         and_then (getitem m ''collection'') (\<lambda>c.
         and_then (getitem c ''meta'') (\<lambda>cm.
         and_then (getitem cm ''discover_tf'') (\<lambda>tf.
         getitem tf ''queued_granules_count''))))
       else
         and_then (has_key output ''replace'') (\<lambda>has_replace.
           if has_replace then
             and_then (getitem output ''replace'') (\<lambda>r1.
             and_then (getitem r1 ''Bucket'') (\<lambda>bucket.
             and_then (getitem output ''replace'') (\<lambda>r2.
             and_then (getitem r2 ''Key'') (\<lambda>key.
             and_then (s3 bucket key) (\<lambda>object_content.
             and_then (loads lib object_content) (\<lambda>s3_download.
             and_then (getitem s3_download ''payload'') (\<lambda>p.
             and_then (getitem p ''granules'') (\<lambda>gs.
             and_then (py_len gs) (\<lambda>n. Inr (JInt n))))))))))
           else Inr (JStr ''REPLACE NOT FOUND''))))))"

text \<open>What one iteration does to the \<^verbatim>\<open>info\<close> dict of its root, given the events
  of the root's history.\<close>

definition backfill_info :: "pylib \<Rightarrow> s3_client \<Rightarrow> json list \<Rightarrow> dict \<Rightarrow> dict result" where
  "backfill_info lib s3 events info0 =
     and_then (dict_get info0 ''status'') (\<lambda>st.
       if st = JStr ''RUNNING'' then
         Inr (AList.update ''queued_granules_count'' (JStr ''N/A'') info0)
       else
         and_then (list_get events 4) (\<lambda>ev.
         and_then (getitem ev ''type'') (\<lambda>ty.
           if ty = JStr ''LambdaFunctionSucceeded'' then
             and_then (granule_count lib s3 ev) (\<lambda>n.
               Inr (AList.update ''queued_granules_count'' n info0))
           else
             and_then (getitem ev ''lambdaFunctionFailedEventDetails'') (\<lambda>details.
             and_then (getitem details ''cause'') (\<lambda>output.
               Inr (AList.update ''queued_granules_count'' (JStr ''N/A'')
                      (AList.update ''fail'' output info0)))))))"

text \<open>One iteration of the loop over the keys of \<^verbatim>\<open>source\<close>: the history is
  fetched first, then the root is looked up and its \<^verbatim>\<open>info\<close> updated in place.\<close>

definition append_body ::
  "pylib \<Rightarrow> step_client \<Rightarrow> s3_client \<Rightarrow> string \<Rightarrow> relation_map \<Rightarrow> relation_map result" where
  "append_body lib client s3 d source =
     and_then (get_execution_history client d) (\<lambda>events.
     and_then (case map_of source d of None \<Rightarrow> Inl KeyError | Some nd \<Rightarrow> Inr nd) (\<lambda>nd.
     and_then (backfill_info lib s3 events (node_info nd)) (\<lambda>info0.
       Inr (AList.update d (nd\<lparr>node_info := info0\<rparr>) source))))"

fun append_loop ::
  "pylib \<Rightarrow> step_client \<Rightarrow> s3_client \<Rightarrow> string list \<Rightarrow> relation_map \<Rightarrow> relation_map result"
  where
  "append_loop lib client s3 [] source = Inr source"
| "append_loop lib client s3 (d # ds) source =
     (case append_body lib client s3 d source of
        Inl e \<Rightarrow> Inl e
      | Inr source' \<Rightarrow> append_loop lib client s3 ds source')"

definition append_metadata ::
  "pylib \<Rightarrow> step_client \<Rightarrow> s3_client \<Rightarrow> relation_map \<Rightarrow> relation_map result" where
  "append_metadata lib client s3 source = append_loop lib client s3 (map fst source) source"

section \<open>Sequences of enrichment operations\<close>

text \<open>The four operations a caller can run on a record after its construction, and a
  run of a list of them in order, ended by the first exception.\<close>

datatype enrichment =
    Set_execution_metadata execution
  | Set_parent
  | Set_granule_id
  | Set_extra_metadata

fun enrich :: "pylib \<Rightarrow> StepFunction \<Rightarrow> enrichment \<Rightarrow> StepFunction result" where
  "enrich lib self (Set_execution_metadata md) = Inr (set_execution_metadata self md)"
| "enrich lib self Set_parent = set_parent lib self"
| "enrich lib self Set_granule_id = set_granule_id lib self"
| "enrich lib self Set_extra_metadata = set_extra_metadata lib self"

fun enrich_all :: "pylib \<Rightarrow> StepFunction \<Rightarrow> enrichment list \<Rightarrow> StepFunction result" where
  "enrich_all lib self [] = Inr self"
| "enrich_all lib self (x # xs) =
     (case enrich lib self x of Inl e \<Rightarrow> Inl e | Inr self' \<Rightarrow> enrich_all lib self' xs)"

section \<open>A small concrete world\<close>

text \<open>JSON texts and the values \<^verbatim>\<open>json.loads\<close> gives for them, used to run the
  definitions on concrete inputs. Datetimes are microseconds since 1970-01-01T00:00:00.\<close>

definition text_parent_discover :: string where
  \<open>text_parent_discover =
     ''{"payload": {"meta": {"source": "arn:stateMachine:Discover", "execution_name": "d1"}}}''\<close>

definition json_parent_discover :: json where
  "json_parent_discover =
     JDict [(''payload'', JDict [(''meta'', JDict
       [(''source'', JStr ''arn:stateMachine:Discover''), (''execution_name'', JStr ''d1'')])])]"

definition text_parent_self :: string where
  \<open>text_parent_self =
     ''{"payload": {"meta": {"source": "arn:stateMachine:Ingest", "execution_name": "i1"}}}''\<close>

definition json_parent_self :: json where
  "json_parent_self =
     JDict [(''payload'', JDict [(''meta'', JDict
       [(''source'', JStr ''arn:stateMachine:Ingest''), (''execution_name'', JStr ''i1'')])])]"

definition text_granule :: string where
  \<open>text_granule = ''{"meta": {"cnmResponse": {"identifier": "G1"}}}''\<close>

definition json_granule :: json where
  "json_granule = JDict [(''meta'', JDict [(''cnmResponse'', JDict [(''identifier'', JStr ''G1'')])])]"

definition text_slash :: string where
  \<open>text_slash = ''{"meta": {"collection": {"name": "C1", "meta": {"provider_path": "/data"}}, "provider": {"protocol": "https", "host": "example.com"}}}''\<close>

definition json_slash :: json where
  "json_slash =
     JDict [(''meta'', JDict
       [(''collection'', JDict [(''name'', JStr ''C1''),
                                (''meta'', JDict [(''provider_path'', JStr ''/data'')])]),
        (''provider'', JDict [(''protocol'', JStr ''https''), (''host'', JStr ''example.com'')])])]"

definition text_noslash :: string where
  \<open>text_noslash = ''{"meta": {"collection": {"name": "C1", "meta": {"provider_path": "data"}}, "provider": {"protocol": "https", "host": "example.com"}}}''\<close>

definition json_noslash :: json where
  "json_noslash =
     JDict [(''meta'', JDict
       [(''collection'', JDict [(''name'', JStr ''C1''),
                                (''meta'', JDict [(''provider_path'', JStr ''data'')])]),
        (''provider'', JDict [(''protocol'', JStr ''https''), (''host'', JStr ''example.com'')])])]"

definition text_count :: string where
  \<open>text_count = ''{"payload": {}, "meta": {"collection": {"meta": {"discover_tf": {"queued_granules_count": 7}}}}}''\<close>

definition json_count :: json where
  "json_count =
     JDict [(''payload'', JDict []),
            (''meta'', JDict [(''collection'', JDict [(''meta'', JDict
               [(''discover_tf'', JDict [(''queued_granules_count'', JInt 7)])])])])]"

definition text_replace :: string where
  \<open>text_replace = ''{"replace": {"Bucket": "b", "Key": "k"}}''\<close>

definition json_replace :: json where
  "json_replace = JDict [(''replace'', JDict [(''Bucket'', JStr ''b''), (''Key'', JStr ''k'')])]"

definition text_object :: string where
  \<open>text_object = ''{"payload": {"granules": [1, 2, 3]}}''\<close>

definition json_object :: json where
  "json_object = JDict [(''payload'', JDict [(''granules'', JList [JInt 1, JInt 2, JInt 3])])]"

definition text_replace_gone :: string where
  \<open>text_replace_gone = ''{"replace": {"Bucket": "b", "Key": "gone"}}''\<close>

definition json_replace_gone :: json where
  "json_replace_gone =
     JDict [(''replace'', JDict [(''Bucket'', JStr ''b''), (''Key'', JStr ''gone'')])]"

definition text_neither :: string where
  \<open>text_neither = ''{}''\<close>

definition json_neither :: json where
  "json_neither = JDict []"

definition example_loads :: "string \<Rightarrow> json result" where
  "example_loads s =
     (case map_of [(text_parent_discover, json_parent_discover),
                   (text_parent_self, json_parent_self),
                   (text_granule, json_granule),
                   (text_slash, json_slash),
                   (text_noslash, json_noslash),
                   (text_count, json_count),
                   (text_replace, json_replace),
                   (text_object, json_object),
                   (text_neither, json_neither),
                   (text_replace_gone, json_replace_gone)] s of
        None \<Rightarrow> Inl JSONDecodeError
      | Some j \<Rightarrow> Inr j)"

definition example_lib :: pylib where
  "example_lib =
     \<lparr>loads = example_loads,
      isoformat = (\<lambda>t. if t = 0 then ''1970-01-01T00:00:00'' else ''1970-01-01T00:00:10''),
      timedelta_str = (\<lambda>d. if d = 0 then ''0:00:00'' else ''0:00:10'')\<rparr>"

text \<open>An ingestion run as \<^verbatim>\<open>list_executions\<close> lists it while it runs, and two
  descriptions of it fetched after it has succeeded: one whose input names a discovery
  run as the source, one whose input names the run itself.\<close>

definition listed_i1 :: execution where
  "listed_i1 =
     \<lparr>d_name = ''i1'', d_status = ''RUNNING'', startDate = 0, stopDate = None,
      executionArn = ''arn:execution:Ingest:i1'', d_input = None, d_output = None\<rparr>"

definition described_i1 :: execution where
  "described_i1 =
     \<lparr>d_name = ''i1'', d_status = ''SUCCEEDED'', startDate = 0, stopDate = Some 10000000,
      executionArn = ''arn:execution:Ingest:i1'',
      d_input = Some text_parent_discover, d_output = Some text_granule\<rparr>"

definition described_i1_self :: execution where
  "described_i1_self =
     \<lparr>d_name = ''i1'', d_status = ''SUCCEEDED'', startDate = 0, stopDate = Some 10000000,
      executionArn = ''arn:execution:Ingest:i1'',
      d_input = Some text_parent_self, d_output = Some text_granule\<rparr>"

text \<open>A discovery run that has succeeded, as listed and as described, with a provider
  path that starts with a slash, and the same description with a path that does not.\<close>

definition listed_d1 :: execution where
  "listed_d1 =
     \<lparr>d_name = ''d1'', d_status = ''SUCCEEDED'', startDate = 0, stopDate = Some 10000000,
      executionArn = ''arn:execution:Discover:d1'', d_input = None, d_output = None\<rparr>"

definition described_d1 :: execution where
  "described_d1 =
     \<lparr>d_name = ''d1'', d_status = ''SUCCEEDED'', startDate = 0, stopDate = Some 10000000,
      executionArn = ''arn:execution:Discover:d1'',
      d_input = Some text_slash, d_output = Some text_count\<rparr>"

definition described_d1_noslash :: execution where
  "described_d1_noslash =
     \<lparr>d_name = ''d1'', d_status = ''SUCCEEDED'', startDate = 0, stopDate = Some 10000000,
      executionArn = ''arn:execution:Discover:d1'',
      d_input = Some text_noslash, d_output = Some text_count\<rparr>"

text \<open>Records as \<^verbatim>\<open>build_discover_ingest_objects\<close> leaves them: a discovery run
  \<^verbatim>\<open>d2\<close> that is still running, and two ingestion runs whose resolved parent is the
  discovery run \<^verbatim>\<open>d1\<close>.\<close>

definition discover_d2 :: StepFunction where
  "discover_d2 =
     \<lparr>name = ''d2'', status = ''RUNNING'', start_date_time = 0, stop_date_time = 0,
      execution_arn = ''arn:execution:Discover:d2'', child_execution_arn = None,
      parent_execution_arn = ''N/A'',
      execution_metadata =
        Some \<lparr>d_name = ''d2'', d_status = ''RUNNING'', startDate = 0, stopDate = None,
              executionArn = ''arn:execution:Discover:d2'',
              d_input = Some text_slash, d_output = None\<rparr>,
      collection = JStr ''C1'', provider = ''https://example.com/data'',
      granule_id = JStr ''N/A''\<rparr>"

definition ingest_i1 :: StepFunction where
  "ingest_i1 =
     \<lparr>name = ''i1'', status = ''SUCCEEDED'', start_date_time = 0, stop_date_time = 10000000,
      execution_arn = ''arn:execution:Ingest:i1'', child_execution_arn = None,
      parent_execution_arn = ''arn:execution:Discover:d1'',
      execution_metadata = Some described_i1,
      collection = JStr ''N/A'', provider = ''N/A'', granule_id = JStr ''G1''\<rparr>"

definition ingest_i2 :: StepFunction where
  "ingest_i2 = ingest_i1\<lparr>name := ''i2'', execution_arn := ''arn:execution:Ingest:i2''\<rparr>"

text \<open>Events of execution histories: four events that come before the outcome of the
  discovery lambda, and five outcomes.\<close>

definition events_before :: "json list" where
  "events_before =
     [JDict [(''type'', JStr ''ExecutionStarted'')],
      JDict [(''type'', JStr ''TaskStateEntered'')],
      JDict [(''type'', JStr ''LambdaFunctionScheduled'')],
      JDict [(''type'', JStr ''LambdaFunctionStarted'')]]"

definition event_succeeded :: "string \<Rightarrow> json" where
  "event_succeeded out =
     JDict [(''type'', JStr ''LambdaFunctionSucceeded''),
            (''lambdaFunctionSucceededEventDetails'', JDict [(''output'', JStr out)])]"

definition event_failed :: json where
  "event_failed =
     JDict [(''type'', JStr ''LambdaFunctionFailed''),
            (''lambdaFunctionFailedEventDetails'',
               JDict [(''error'', JStr ''Error''), (''cause'', JStr ''boom'')])]"

text \<open>The client: it describes the discovery run \<^verbatim>\<open>d1\<close> only, and has the history
  of ten discovery runs; the lookup of the seventh history fails. The last three histories
  end with an event of another type, with a success event whose output names an object
  that the store does not have, and with a success event that has no details.\<close>

definition example_client :: step_client where
  "example_client =
     \<lparr>describe_execution =
        (\<lambda>arn. if arn = ''arn:execution:Discover:d1'' then Inr described_d1
               else Inl ClientError),
      get_execution_history =
        (\<lambda>arn. case map_of
             [(''arn:r1'', Inr (events_before @ [event_succeeded text_count])),
              (''arn:r2'', Inr (events_before @ [event_succeeded text_replace])),
              (''arn:r3'', Inr (events_before @ [event_succeeded text_neither])),
              (''arn:r4'', Inr (events_before @ [event_failed])),
              (''arn:r5'', Inr []),
              (''arn:r6'', Inr events_before),
              (''arn:r7'', Inl ClientError),
              (''arn:r8'', Inr (events_before @ [JDict [(''type'', JStr ''TaskStateExited'')]])),
              (''arn:r9'', Inr (events_before @ [event_succeeded text_replace_gone])),
              (''arn:r10'', Inr (events_before @
                                   [JDict [(''type'', JStr ''LambdaFunctionSucceeded'')]]))]
             arn of
           None \<Rightarrow> Inl ClientError
         | Some r \<Rightarrow> r)\<rparr>"

text \<open>The object store holds one object.\<close>

definition example_s3 :: s3_client where
  "example_s3 bucket key =
     (if bucket = JStr ''b'' \<and> key = JStr ''k'' then Inr text_object else Inl ClientError)"

text \<open>A root of a relation map with a given status and no children.\<close>

definition example_root :: "string \<Rightarrow> node" where
  "example_root st =
     \<lparr>child = [],
      node_info = [(''status'', JStr st), (''start'', JStr ''1970-01-01T00:00:00''),
                   (''duration'', JStr ''0:00:10''), (''parent'', JStr ''N/A''),
                   (''collection'', JStr ''C1''),
                   (''provider'', JStr ''https://example.com/data''),
                   (''granuleId'', JStr ''N/A'')]\<rparr>"

section \<open>Basic facts\<close>

lemma and_then_Inr [simp]: "and_then (Inr x) f = f x"
  by (simp add: and_then_def)

lemma and_then_Inl [simp]: "and_then (Inl e) f = Inl e"
  by (simp add: and_then_def)

lemma and_then_eq_Inr: "and_then m f = Inr y \<longleftrightarrow> (\<exists>x. m = Inr x \<and> f x = Inr y)"
  by (cases m) simp_all

lemmas example_texts =
  text_parent_discover_def text_parent_self_def text_granule_def text_slash_def
  text_noslash_def text_count_def text_replace_def text_object_def text_neither_def
  text_replace_gone_def

lemma loads1: "loads example_lib text_parent_discover = Inr json_parent_discover"
  by (simp add: example_lib_def example_loads_def example_texts)
lemma loads2: "loads example_lib text_parent_self = Inr json_parent_self"
  by (simp add: example_lib_def example_loads_def example_texts)
lemma loads3: "loads example_lib text_granule = Inr json_granule"
  by (simp add: example_lib_def example_loads_def example_texts)
lemma loads4: "loads example_lib text_slash = Inr json_slash"
  by (simp add: example_lib_def example_loads_def example_texts)
lemma loads5: "loads example_lib text_noslash = Inr json_noslash"
  by (simp add: example_lib_def example_loads_def example_texts)
lemma loads6: "loads example_lib text_count = Inr json_count"
  by (simp add: example_lib_def example_loads_def example_texts)
lemma loads7: "loads example_lib text_replace = Inr json_replace"
  by (simp add: example_lib_def example_loads_def example_texts)
lemma loads8: "loads example_lib text_object = Inr json_object"
  by (simp add: example_lib_def example_loads_def example_texts)
lemma loads9: "loads example_lib text_neither = Inr json_neither"
  by (simp add: example_lib_def example_loads_def example_texts)

lemma and_then_eq_Inl:
  "and_then m f = Inl e \<longleftrightarrow> m = Inl e \<or> (\<exists>x. m = Inr x \<and> f x = Inl e)"
  by (cases m) simp_all

lemmas example_records =
  listed_i1_def described_i1_def described_i1_self_def listed_d1_def described_d1_def
  described_d1_noslash_def

section \<open>The execution record\<close>

text \<open>
  C7. A record constructed from a listing entry whose stop timestamp is at or after its
  start timestamp has a duration that is not negative; and a record constructed from an
  entry whose status is RUNNING has duration zero, since the constructor takes the start
  timestamp as the stop timestamp of every entry that has not succeeded. In both cases
  the constructor returns.
\<close>

theorem duration_bounds:
  "(\<forall>t. stopDate e = Some t \<and> startDate e \<le> t \<longrightarrow>
        (\<exists>self. StepFunction_init e = Inr self \<and> 0 \<le> get_duration self)) \<and>
   (d_status e = ''RUNNING'' \<longrightarrow>
        (\<exists>self. StepFunction_init e = Inr self \<and> get_duration self = 0))"
  by (auto simp: StepFunction_init_def get_duration_def)

theorem duration_bounds_witness:
  "stopDate listed_d1 = Some 10000000 \<and> startDate listed_d1 \<le> 10000000 \<and>
   (\<exists>self. StepFunction_init listed_d1 = Inr self \<and> 0 \<le> get_duration self) \<and>
   d_status listed_i1 = ''RUNNING'' \<and>
   (\<exists>self. StepFunction_init listed_i1 = Inr self \<and> get_duration self = 0)"
proof -
  have a: "stopDate listed_d1 = Some 10000000 \<and> startDate listed_d1 \<le> 10000000"
    by (simp add: listed_d1_def)
  have b: "d_status listed_i1 = ''RUNNING''"
    by (simp add: listed_i1_def)
  from a b duration_bounds [of listed_d1] duration_bounds [of listed_i1]
  show ?thesis by blast
qed

text \<open>
  C10. For a record constructed from any listing entry, after any sequence of the
  enrichment operations that runs to its end, \<open>get_children\<close> returns the empty list:
  the constructor gives the instance no child list of its own, no operation gives it one,
  and the list of the class is empty.
\<close>

lemma init_child: "StepFunction_init e = Inr self \<Longrightarrow> child_execution_arn self = None"
  by (auto simp: StepFunction_init_def and_then_eq_Inr)

lemma set_parent_child:
  "set_parent lib self = Inr self' \<Longrightarrow> child_execution_arn self' = child_execution_arn self"
  by (auto simp: set_parent_def and_then_eq_Inr split: option.splits)

lemma set_granule_id_child:
  "set_granule_id lib self = Inr self' \<Longrightarrow> child_execution_arn self' = child_execution_arn self"
  by (auto simp: set_granule_id_def and_then_eq_Inr split: option.splits if_splits)

lemma set_extra_metadata_child:
  "set_extra_metadata lib self = Inr self' \<Longrightarrow>
     child_execution_arn self' = child_execution_arn self"
  by (auto simp: set_extra_metadata_def and_then_eq_Inr split: option.splits)

lemma enrich_child:
  "enrich lib self x = Inr self' \<Longrightarrow> child_execution_arn self' = child_execution_arn self"
  by (cases x)
     (auto simp: set_execution_metadata_def
           dest: set_parent_child set_granule_id_child set_extra_metadata_child)

lemma enrich_all_child:
  "enrich_all lib self xs = Inr self' \<Longrightarrow> child_execution_arn self' = child_execution_arn self"
proof (induction xs arbitrary: self)
  case Nil
  then show ?case by simp
next
  case (Cons x xs)
  then obtain self1 where a: "enrich lib self x = Inr self1"
    and b: "enrich_all lib self1 xs = Inr self'"
    by (auto split: sum.splits)
  from Cons.IH [OF b] enrich_child [OF a] show ?case by simp
qed

theorem get_children_empty:
  "StepFunction_init step_execution = Inr self0 \<Longrightarrow> enrich_all lib self0 ops = Inr self
   \<Longrightarrow> get_children self = []"
  by (simp add: get_children_def class_child_execution_arn_def init_child enrich_all_child)

theorem get_children_empty_witness:
  "\<exists>self0 self.
      StepFunction_init listed_i1 = Inr self0 \<and>
      enrich_all example_lib self0
        [Set_execution_metadata described_i1, Set_parent, Set_granule_id,
         Set_execution_metadata described_d1, Set_extra_metadata] = Inr self \<and>
      get_children self = []"
proof -
  obtain self0 where a: "StepFunction_init listed_i1 = Inr self0"
    by (simp add: StepFunction_init_def listed_i1_def)
  obtain self where b: "enrich_all example_lib self0
        [Set_execution_metadata described_i1, Set_parent, Set_granule_id,
         Set_execution_metadata described_d1, Set_extra_metadata] = Inr self"
    by (simp add: set_execution_metadata_def set_parent_def set_granule_id_def
          set_extra_metadata_def described_i1_def described_d1_def loads1 loads3 loads4
          json_parent_discover_def json_granule_def json_slash_def)
  from a b get_children_empty [OF a b] show ?thesis by blast
qed

section \<open>The history enricher\<close>

text \<open>
  C4, as the code has it. On a record that holds a description whose input parses and has
  the strings \<open>payload.meta.source\<close> and \<open>payload.meta.execution_name\<close>,
  \<open>set_parent\<close> returns, and the parent reference is the source with every
  \<^verbatim>\<open>stateMachine\<close> replaced by \<^verbatim>\<open>execution\<close>, then a colon, then the execution
  name; no other field changes. The record's own reference takes no part in it.
\<close>

theorem set_parent_from_payload:
  assumes "execution_metadata self = Some md"
    and "d_input md = Some s"
    and "loads lib s = Inr j"
    and "getitem j ''payload'' = Inr p"
    and "getitem p ''meta'' = Inr m"
    and "getitem m ''source'' = Inr (JStr src)"
    and "getitem m ''execution_name'' = Inr (JStr en)"
  shows "set_parent lib self =
           Inr (self\<lparr>parent_execution_arn :=
                  replace_str ''stateMachine'' ''execution'' src @ '':'' @ en\<rparr>)"
  using assms by (simp add: set_parent_def)

theorem set_parent_from_payload_witness:
  "\<exists>self0. StepFunction_init listed_i1 = Inr self0 \<and>
      set_parent example_lib (set_execution_metadata self0 described_i1) =
        Inr ((set_execution_metadata self0 described_i1)
               \<lparr>parent_execution_arn := ''arn:execution:Discover:d1''\<rparr>)"
proof -
  obtain self0 where a: "StepFunction_init listed_i1 = Inr self0"
    by (simp add: StepFunction_init_def listed_i1_def)
  have "set_parent example_lib (set_execution_metadata self0 described_i1) =
          Inr ((set_execution_metadata self0 described_i1)
                 \<lparr>parent_execution_arn := ''arn:execution:Discover:d1''\<rparr>)"
    using set_parent_from_payload [where self = "set_execution_metadata self0 described_i1"
        and lib = example_lib and md = described_i1 and s = text_parent_discover
        and j = json_parent_discover and src = "''arn:stateMachine:Discover''"
        and en = "''d1''"]
    by (simp add: set_execution_metadata_def described_i1_def loads1 json_parent_discover_def)
  with a show ?thesis by simp
qed

text \<open>
  C4 as stated fails: an ingestion run whose input names its own state machine and its own
  name as the source gets itself as parent.
\<close>

theorem set_parent_self_counterexample:
  "\<exists>self0 self. StepFunction_init listed_i1 = Inr self0 \<and>
      set_parent example_lib (set_execution_metadata self0 described_i1_self) = Inr self \<and>
      parent_execution_arn self = execution_arn self"
  by (simp add: StepFunction_init_def listed_i1_def set_parent_def set_execution_metadata_def
        described_i1_self_def loads2 json_parent_self_def)

text \<open>
  C5, as the code has it. \<open>set_granule_id\<close> leaves the record as it is, and so the
  granule identifier at its default, whenever the status in the description it holds is
  not SUCCEEDED.
\<close>

theorem set_granule_id_guard:
  assumes "execution_metadata self = Some md" and "d_status md \<noteq> ''SUCCEEDED''"
  shows "set_granule_id lib self = Inr self"
  using assms by (simp add: set_granule_id_def)

theorem set_granule_id_guard_witness:
  "\<exists>self0. StepFunction_init listed_i1 = Inr self0 \<and>
     set_granule_id example_lib (set_execution_metadata self0 listed_i1) =
       Inr (set_execution_metadata self0 listed_i1) \<and>
     granule_id (set_execution_metadata self0 listed_i1) = JStr ''N/A''"
proof -
  obtain self0 where a: "StepFunction_init listed_i1 = Inr self0"
    and b: "granule_id self0 = JStr ''N/A''"
    by (simp add: StepFunction_init_def listed_i1_def)
  have "set_granule_id example_lib (set_execution_metadata self0 listed_i1) =
          Inr (set_execution_metadata self0 listed_i1)"
    by (rule set_granule_id_guard [where md = listed_i1])
       (simp_all add: set_execution_metadata_def listed_i1_def)
  with a b show ?thesis by (simp add: set_execution_metadata_def)
qed

text \<open>
  C5 as stated fails: the guard reads the status of the description, not the status of
  the record. A record listed as RUNNING and described after it has succeeded keeps the
  status RUNNING and gets the granule identifier of the output.
\<close>

theorem set_granule_id_counterexample:
  "\<exists>self0 self. StepFunction_init listed_i1 = Inr self0 \<and> status self0 \<noteq> ''SUCCEEDED'' \<and>
      set_granule_id example_lib (set_execution_metadata self0 described_i1) = Inr self \<and>
      status self \<noteq> ''SUCCEEDED'' \<and> granule_id self = JStr ''G1''"
  by (simp add: StepFunction_init_def listed_i1_def set_granule_id_def
        set_execution_metadata_def described_i1_def loads3 json_granule_def)

text \<open>
  C8. For every protocol, host and provider path that the input holds as strings,
  \<open>set_extra_metadata\<close> returns and the provider is the protocol, \<^verbatim>\<open>://\<close>, the
  host, one slash, and the path without its first character when that is a slash. With
  \<^verbatim>\<open>https\<close> and \<^verbatim>\<open>example.com\<close>, the paths \<^verbatim>\<open>/data\<close> and \<^verbatim>\<open>data\<close>
  both give \<^verbatim>\<open>https://example.com/data\<close>.
\<close>

theorem provider_uri:
  assumes "execution_metadata self = Some md"
    and "d_input md = Some s"
    and "loads lib s = Inr j"
    and "getitem j ''meta'' = Inr m"
    and "getitem m ''collection'' = Inr c"
    and "getitem c ''name'' = Inr coll"
    and "getitem m ''provider'' = Inr p"
    and "getitem p ''protocol'' = Inr (JStr protocol)"
    and "getitem p ''host'' = Inr (JStr host)"
    and "getitem c ''meta'' = Inr cm"
    and "getitem cm ''provider_path'' = Inr (JStr provider_path)"
  shows "set_extra_metadata lib self =
           Inr (self\<lparr>collection := coll,
                     provider := protocol @ ''://'' @ host @ ''/'' @
                       (case provider_path of
                          [] \<Rightarrow> []
                        | x # rest \<Rightarrow> if x = CHR ''/'' then rest else provider_path)\<rparr>)"
  using assms by (cases provider_path) (simp_all add: set_extra_metadata_def)

theorem provider_uri_witness:
  "\<exists>self0. StepFunction_init listed_d1 = Inr self0 \<and>
     set_extra_metadata example_lib (set_execution_metadata self0 described_d1) =
       Inr ((set_execution_metadata self0 described_d1)
              \<lparr>collection := JStr ''C1'', provider := ''https://example.com/data''\<rparr>) \<and>
     set_extra_metadata example_lib (set_execution_metadata self0 described_d1_noslash) =
       Inr ((set_execution_metadata self0 described_d1_noslash)
              \<lparr>collection := JStr ''C1'', provider := ''https://example.com/data''\<rparr>)"
proof -
  obtain self0 where a: "StepFunction_init listed_d1 = Inr self0"
    by (simp add: StepFunction_init_def listed_d1_def)
  have b: "set_extra_metadata example_lib (set_execution_metadata self0 described_d1) =
       Inr ((set_execution_metadata self0 described_d1)
              \<lparr>collection := JStr ''C1'', provider := ''https://example.com/data''\<rparr>)"
    using provider_uri [where self = "set_execution_metadata self0 described_d1"
        and lib = example_lib and md = described_d1 and s = text_slash and j = json_slash
        and protocol = "''https''" and host = "''example.com''" and provider_path = "''/data''"
        and coll = "JStr ''C1''"]
    by (simp add: set_execution_metadata_def described_d1_def loads4 json_slash_def)
  have c: "set_extra_metadata example_lib (set_execution_metadata self0 described_d1_noslash) =
       Inr ((set_execution_metadata self0 described_d1_noslash)
              \<lparr>collection := JStr ''C1'', provider := ''https://example.com/data''\<rparr>)"
    using provider_uri [where self = "set_execution_metadata self0 described_d1_noslash"
        and lib = example_lib and md = described_d1_noslash and s = text_noslash
        and j = json_noslash
        and protocol = "''https''" and host = "''example.com''" and provider_path = "''data''"
        and coll = "JStr ''C1''"]
    by (simp add: set_execution_metadata_def described_d1_noslash_def loads5 json_noslash_def)
  from a b c show ?thesis by simp
qed

section \<open>The relation tree\<close>

text \<open>What one iteration of the second loop does when it returns, and what the two loops
  do to the keys, the child lists and the \<^verbatim>\<open>info\<close> of the roots.\<close>

lemma set_extra_metadata_arns:
  "set_extra_metadata lib self = Inr self' \<Longrightarrow>
     parent_execution_arn self' = parent_execution_arn self \<and>
     execution_arn self' = execution_arn self"
  by (auto simp: set_extra_metadata_def and_then_eq_Inr split: option.splits)

lemma enriched_arns:
  "enriched lib client b0 = Inr b \<Longrightarrow>
     parent_execution_arn b = parent_execution_arn b0 \<and> execution_arn b = execution_arn b0"
  by (auto simp: enriched_def and_then_eq_Inr set_execution_metadata_def
           dest!: set_extra_metadata_arns)

lemma ingest_body_Inr:
  assumes "ingest_body lib client b0 rm = Inr rm'"
  shows "\<exists>b nd. enriched lib client b0 = Inr b \<and>
           rm' = AList.update (parent_execution_arn b0) nd rm \<and>
           child nd = children_of rm (parent_execution_arn b0) @ [[(execution_arn b0, info lib b)]] \<and>
           (case map_of rm (parent_execution_arn b0) of
              Some n0 \<Rightarrow> node_info nd = node_info n0
            | None \<Rightarrow> synthetic_info lib client (parent_execution_arn b0) = Inr (node_info nd))"
proof -
  from assms obtain ei b where d: "describe_execution client (parent_execution_arn b0) = Inr ei"
    and e: "set_extra_metadata lib (set_execution_metadata b0 ei) = Inr b"
    and r: "(case map_of rm (parent_execution_arn b) of
          Some nd \<Rightarrow>
            Inr (AList.update (parent_execution_arn b)
                   (nd\<lparr>child := child nd @ [[(execution_arn b, info lib b)]]\<rparr>) rm)
        | None \<Rightarrow>
            and_then (StepFunction_init ei) (\<lambda>temp_step0.
            and_then (set_extra_metadata lib (set_execution_metadata temp_step0 ei))
              (\<lambda>temp_step.
                Inr (AList.update (parent_execution_arn b)
                       \<lparr>child = [[(execution_arn b, info lib b)]],
                        node_info = info lib temp_step\<rparr> rm)))) = Inr rm'"
    unfolding ingest_body_def and_then_eq_Inr by blast
  from d e have en: "enriched lib client b0 = Inr b"
    by (simp add: enriched_def)
  from enriched_arns [OF en] have p: "parent_execution_arn b = parent_execution_arn b0"
    and a: "execution_arn b = execution_arn b0" by simp_all
  show ?thesis
  proof (cases "map_of rm (parent_execution_arn b0)")
    case None
    with r p a d show ?thesis
      by (auto simp: and_then_eq_Inr children_of_def synthetic_info_def en)
  next
    case (Some n0)
    with r p a show ?thesis
      by (auto simp: children_of_def en)
  qed
qed

lemma children_of_update:
  "children_of (AList.update p nd rm) k = (if k = p then child nd else children_of rm k)"
  by (simp add: children_of_def update_conv')

lemma child_entry_enriched:
  "enriched lib client b0 = Inr b \<Longrightarrow> child_entry lib client b0 = [(execution_arn b0, info lib b)]"
  by (simp add: child_entry_def enriched_arns)

lemma ingest_loop_keys:
  "ingest_loop lib client bs rm = Inr rm' \<Longrightarrow>
     fst ` set rm' = fst ` set rm \<union> parent_execution_arn ` set bs"
proof (induction bs arbitrary: rm)
  case Nil
  then show ?case by simp
next
  case (Cons b bs)
  then obtain rm1 where s: "ingest_body lib client b rm = Inr rm1"
    and l: "ingest_loop lib client bs rm1 = Inr rm'"
    by (auto split: sum.splits)
  from ingest_body_Inr [OF s] obtain nd where "rm1 = AList.update (parent_execution_arn b) nd rm"
    by blast
  then have "fst ` set rm1 = insert (parent_execution_arn b) (fst ` set rm)"
    by (simp add: dom_update)
  with Cons.IH [OF l] show ?case by auto
qed

lemma ingest_loop_distinct:
  "ingest_loop lib client bs rm = Inr rm' \<Longrightarrow> distinct (map fst rm) \<Longrightarrow> distinct (map fst rm')"
proof (induction bs arbitrary: rm)
  case Nil
  then show ?case by simp
next
  case (Cons b bs)
  then obtain rm1 where s: "ingest_body lib client b rm = Inr rm1"
    and l: "ingest_loop lib client bs rm1 = Inr rm'"
    by (auto split: sum.splits)
  from ingest_body_Inr [OF s] obtain nd where "rm1 = AList.update (parent_execution_arn b) nd rm"
    by blast
  with Cons.prems(2) have "distinct (map fst rm1)"
    by (simp add: distinct_update)
  with Cons.IH [OF l] show ?case .
qed

lemma ingest_loop_children:
  "ingest_loop lib client bs rm = Inr rm' \<Longrightarrow>
     children_of rm' k =
       children_of rm k @
       map (child_entry lib client) (filter (\<lambda>b. parent_execution_arn b = k) bs)"
proof (induction bs arbitrary: rm)
  case Nil
  then show ?case by simp
next
  case (Cons b bs)
  then obtain rm1 where s: "ingest_body lib client b rm = Inr rm1"
    and l: "ingest_loop lib client bs rm1 = Inr rm'"
    by (auto split: sum.splits)
  from ingest_body_Inr [OF s] obtain b' nd where en: "enriched lib client b = Inr b'"
    and u: "rm1 = AList.update (parent_execution_arn b) nd rm"
    and c: "child nd = children_of rm (parent_execution_arn b) @ [[(execution_arn b, info lib b')]]"
    by blast
  have "children_of rm1 k =
          children_of rm k @ (if parent_execution_arn b = k then [child_entry lib client b] else [])"
    using u c by (auto simp: children_of_update child_entry_enriched [OF en])
  with Cons.IH [OF l] show ?case by simp
qed

lemma ingest_loop_info:
  "ingest_loop lib client bs rm = Inr rm' \<Longrightarrow> map_of rm' k = Some nd \<Longrightarrow>
     (case map_of rm k of
        Some n0 \<Rightarrow> node_info nd = node_info n0
      | None \<Rightarrow> synthetic_info lib client k = Inr (node_info nd))"
proof (induction bs arbitrary: rm)
  case Nil
  then show ?case by simp
next
  case (Cons b bs)
  then obtain rm1 where s: "ingest_body lib client b rm = Inr rm1"
    and l: "ingest_loop lib client bs rm1 = Inr rm'"
    by (auto split: sum.splits)
  from ingest_body_Inr [OF s] obtain n1 where
    u: "rm1 = AList.update (parent_execution_arn b) n1 rm"
    and i: "(case map_of rm (parent_execution_arn b) of
              Some n0 \<Rightarrow> node_info n1 = node_info n0
            | None \<Rightarrow> synthetic_info lib client (parent_execution_arn b) = Inr (node_info n1))"
    by blast
  from Cons.IH [OF l Cons.prems(2)] u i show ?case
    by (auto simp: update_conv' split: option.splits if_splits)
qed

lemma ingest_loop_enriched:
  "ingest_loop lib client bs rm = Inr rm' \<Longrightarrow> b \<in> set bs \<Longrightarrow>
     \<exists>b'. enriched lib client b = Inr b'"
proof (induction bs arbitrary: rm)
  case Nil
  then show ?case by simp
next
  case (Cons x bs)
  then obtain rm1 where s: "ingest_body lib client x rm = Inr rm1"
    and l: "ingest_loop lib client bs rm1 = Inr rm'"
    by (auto split: sum.splits)
  from ingest_body_Inr [OF s] Cons.IH [OF l] Cons.prems(2) show ?case by auto
qed

lemma discover_loop_keys:
  "fst ` set (discover_loop lib ds rm) = fst ` set rm \<union> execution_arn ` set ds"
  by (induction ds arbitrary: rm) (auto simp: dom_update)

lemma discover_loop_distinct:
  "distinct (map fst rm) \<Longrightarrow> distinct (map fst (discover_loop lib ds rm))"
  by (induction ds arbitrary: rm) (auto simp: distinct_update)

lemma discover_loop_children:
  "children_of (discover_loop lib ds rm) k =
     (if k \<in> execution_arn ` set ds then [] else children_of rm k)"
  by (induction ds arbitrary: rm) (auto simp: children_of_update)

lemma discover_loop_absent:
  "k \<notin> execution_arn ` set ds \<Longrightarrow> map_of (discover_loop lib ds rm) k = map_of rm k"
  by (induction ds arbitrary: rm) (auto simp: update_conv')

lemma distinct_filter_key:
  "distinct (map fst al) \<Longrightarrow> k \<in> fst ` set al \<Longrightarrow> length (filter (\<lambda>kv. fst kv = k) al) = 1"
  by (induction al) (force simp: filter_empty_conv)+


lemma children_of_empty: "children_of [] k = []"
  by (simp add: children_of_def)

lemma children_of_Some: "map_of rm k = Some nd \<Longrightarrow> children_of rm k = child nd"
  by (simp add: children_of_def)

lemma map_of_key: "k \<in> fst ` set al \<Longrightarrow> \<exists>v. map_of al k = Some v"
  by (cases "map_of al k") (auto simp: map_of_eq_None_iff)

lemma build_children:
  assumes "build_relation_tree lib client discover_list ingest_list = Inr forest"
  shows "children_of forest k =
           map (child_entry lib client) (filter (\<lambda>b. parent_execution_arn b = k) ingest_list)"
  using ingest_loop_children [OF assms [unfolded build_relation_tree_def], of k]
  by (simp add: discover_loop_children children_of_empty)

lemma build_distinct:
  assumes "build_relation_tree lib client discover_list ingest_list = Inr forest"
  shows "distinct (map fst forest)"
  using ingest_loop_distinct [OF assms [unfolded build_relation_tree_def]]
  by (simp add: discover_loop_distinct)

lemma build_keys:
  assumes "build_relation_tree lib client discover_list ingest_list = Inr forest"
  shows "fst ` set forest =
           execution_arn ` set discover_list \<union> parent_execution_arn ` set ingest_list"
  using ingest_loop_keys [OF assms [unfolded build_relation_tree_def]]
  by (simp add: discover_loop_keys)

lemma build_child_keys:
  assumes "build_relation_tree lib client discover_list ingest_list = Inr forest"
    and "set bs \<subseteq> set ingest_list"
  shows "map (map fst) (map (child_entry lib client) bs) = map (\<lambda>b. [execution_arn b]) bs"
proof -
  have "map fst (child_entry lib client b) = [execution_arn b]" if "b \<in> set bs" for b
  proof -
    from that assms(2) have "b \<in> set ingest_list" by blast
    from ingest_loop_enriched [OF assms(1) [unfolded build_relation_tree_def] this]
    obtain b' where "enriched lib client b = Inr b'" by blast
    then show ?thesis by (simp add: child_entry_enriched)
  qed
  then show ?thesis by simp
qed

lemma example_forest:
  "\<exists>forest. build_relation_tree example_lib example_client [discover_d2] [ingest_i1, ingest_i2]
     = Inr forest"
  by (simp add: build_relation_tree_def ingest_body_def example_client_def
        set_extra_metadata_def set_execution_metadata_def StepFunction_init_def
        described_d1_def loads4 json_slash_def ingest_i1_def ingest_i2_def discover_d2_def
        update_conv')

text \<open>
  C2. When \<open>build_relation_tree\<close> returns a forest and at least two ingestion records
  have the same parent reference, one that no listed discovery record has, the forest has
  exactly one entry with that key; its child list is the entries of exactly these
  records, in input order, one entry per record, each keyed by the record's own
  reference; and its \<^verbatim>\<open>info\<close> is that of a record made from the parent's
  description. Under every key the child list is the entries of the ingestion records
  with that parent and of no other, so a record is filed under one key only.
\<close>

theorem shared_unlisted_parent_one_root:
  assumes "build_relation_tree lib client discover_list ingest_list = Inr forest"
    and "p \<notin> execution_arn ` set discover_list"
    and "bs = filter (\<lambda>b. parent_execution_arn b = p) ingest_list"
    and "2 \<le> length bs"
  shows "distinct (map fst forest) \<and>
         length (filter (\<lambda>kv. fst kv = p) forest) = 1 \<and>
         (\<exists>nd. map_of forest p = Some nd \<and>
               child nd = map (child_entry lib client) bs \<and>
               map (map fst) (child nd) = map (\<lambda>b. [execution_arn b]) bs \<and>
               length (child nd) = length bs \<and>
               synthetic_info lib client p = Inr (node_info nd)) \<and>
         (\<forall>k. children_of forest k =
               map (child_entry lib client)
                 (filter (\<lambda>b. parent_execution_arn b = k) ingest_list))"
proof -
  note b = assms(1)
  have d: "distinct (map fst forest)" by (rule build_distinct [OF b])
  from assms(4) obtain x where "x \<in> set bs" by (cases bs) auto
  with assms(3) have "p \<in> parent_execution_arn ` set ingest_list" by auto
  then have k: "p \<in> fst ` set forest" by (simp add: build_keys [OF b])
  from map_of_key [OF k] obtain nd where nd: "map_of forest p = Some nd" by blast
  have c: "child nd = map (child_entry lib client) bs"
    using build_children [OF b, of p] nd assms(3) by (simp add: children_of_Some)
  have "set bs \<subseteq> set ingest_list" using assms(3) by auto
  from build_child_keys [OF b this]
  have ck: "map (map fst) (child nd) = map (\<lambda>b. [execution_arn b]) bs"
    by (simp add: c)
  have "map_of (discover_loop lib discover_list []) p = None"
    using assms(2) by (simp add: discover_loop_absent)
  with ingest_loop_info [OF b [unfolded build_relation_tree_def] nd]
  have s: "synthetic_info lib client p = Inr (node_info nd)" by simp
  from d k have "length (filter (\<lambda>kv. fst kv = p) forest) = 1"
    by (rule distinct_filter_key)
  with d nd c ck s build_children [OF b] show ?thesis by simp
qed

theorem shared_unlisted_parent_one_root_witness:
  "\<exists>forest nd.
     build_relation_tree example_lib example_client [discover_d2] [ingest_i1, ingest_i2]
       = Inr forest \<and>
     ''arn:execution:Discover:d1'' \<notin> execution_arn ` set [discover_d2] \<and>
     filter (\<lambda>b. parent_execution_arn b = ''arn:execution:Discover:d1'') [ingest_i1, ingest_i2]
       = [ingest_i1, ingest_i2] \<and>
     distinct (map fst forest) \<and>
     length (filter (\<lambda>kv. fst kv = ''arn:execution:Discover:d1'') forest) = 1 \<and>
     map_of forest ''arn:execution:Discover:d1'' = Some nd \<and>
     map (map fst) (child nd) = [[''arn:execution:Ingest:i1''], [''arn:execution:Ingest:i2'']] \<and>
     synthetic_info example_lib example_client ''arn:execution:Discover:d1''
       = Inr (node_info nd)"
proof -
  from example_forest obtain forest where
    f: "build_relation_tree example_lib example_client [discover_d2] [ingest_i1, ingest_i2]
          = Inr forest" by blast
  have u: "''arn:execution:Discover:d1'' \<notin> execution_arn ` set [discover_d2]"
    by (simp add: discover_d2_def)
  have e: "[ingest_i1, ingest_i2] =
     filter (\<lambda>b. parent_execution_arn b = ''arn:execution:Discover:d1'') [ingest_i1, ingest_i2]"
    by (simp add: ingest_i1_def ingest_i2_def)
  have n: "2 \<le> length [ingest_i1, ingest_i2]" by simp
  from shared_unlisted_parent_one_root [OF f u e n] obtain nd where
    "distinct (map fst forest)"
    "length (filter (\<lambda>kv. fst kv = ''arn:execution:Discover:d1'') forest) = 1"
    "map_of forest ''arn:execution:Discover:d1'' = Some nd"
    "map (map fst) (child nd) = map (\<lambda>b. [execution_arn b]) [ingest_i1, ingest_i2]"
    "synthetic_info example_lib example_client ''arn:execution:Discover:d1''
       = Inr (node_info nd)"
    by blast
  with f u e [symmetric] show ?thesis
    by (simp add: ingest_i1_def ingest_i2_def)
qed

text \<open>
  C9. When \<open>build_relation_tree\<close> returns a forest, the reference of every discovery
  record is the key of exactly one entry of it; when no ingestion record has that
  reference as its parent, the entry is there with an empty child list.
\<close>

theorem discovery_record_is_root:
  assumes "build_relation_tree lib client discover_list ingest_list = Inr forest"
    and "a \<in> set discover_list"
  shows "length (filter (\<lambda>kv. fst kv = execution_arn a) forest) = 1 \<and>
         (\<exists>nd. map_of forest (execution_arn a) = Some nd \<and>
               ((\<forall>b \<in> set ingest_list. parent_execution_arn b \<noteq> execution_arn a) \<longrightarrow>
                  child nd = []))"
proof -
  note b = assms(1)
  have d: "distinct (map fst forest)" by (rule build_distinct [OF b])
  from assms(2) have k: "execution_arn a \<in> fst ` set forest"
    by (simp add: build_keys [OF b])
  from map_of_key [OF k] obtain nd where nd: "map_of forest (execution_arn a) = Some nd"
    by blast
  have "child nd = []" if "\<forall>b \<in> set ingest_list. parent_execution_arn b \<noteq> execution_arn a"
  proof -
    from that have "filter (\<lambda>b. parent_execution_arn b = execution_arn a) ingest_list = []"
      by (simp add: filter_empty_conv)
    with build_children [OF b, of "execution_arn a"] nd show ?thesis
      by (simp add: children_of_Some)
  qed
  with distinct_filter_key [OF d k] nd show ?thesis by simp
qed

theorem discovery_record_is_root_witness:
  "\<exists>forest nd.
     build_relation_tree example_lib example_client [discover_d2] [ingest_i1, ingest_i2]
       = Inr forest \<and>
     discover_d2 \<in> set [discover_d2] \<and>
     parent_execution_arn ingest_i1 \<noteq> execution_arn discover_d2 \<and>
     parent_execution_arn ingest_i2 \<noteq> execution_arn discover_d2 \<and>
     length (filter (\<lambda>kv. fst kv = ''arn:execution:Discover:d2'') forest) = 1 \<and>
     map_of forest ''arn:execution:Discover:d2'' = Some nd \<and> child nd = []"
proof -
  from example_forest obtain forest where
    f: "build_relation_tree example_lib example_client [discover_d2] [ingest_i1, ingest_i2]
          = Inr forest" by blast
  have m: "discover_d2 \<in> set [discover_d2]" by simp
  have p: "parent_execution_arn ingest_i1 \<noteq> execution_arn discover_d2"
    "parent_execution_arn ingest_i2 \<noteq> execution_arn discover_d2"
    by (simp_all add: ingest_i1_def ingest_i2_def discover_d2_def)
  have a: "execution_arn discover_d2 = ''arn:execution:Discover:d2''"
    by (simp add: discover_d2_def)
  from discovery_record_is_root [OF f m] p a obtain nd where
    "length (filter (\<lambda>kv. fst kv = ''arn:execution:Discover:d2'') forest) = 1"
    "map_of forest ''arn:execution:Discover:d2'' = Some nd" "child nd = []"
    by auto
  with f m p show ?thesis by blast
qed

section \<open>The metadata backfill\<close>

text \<open>What one iteration of the loop does when it returns, what the loop does to the root
  of each key when the keys are distinct, and what \<open>backfill_info\<close> and
  \<open>granule_count\<close> have read when they return.\<close>

lemma append_body_Inr:
  assumes "append_body lib client s3 d source = Inr source'"
  shows "\<exists>events nd i'. get_execution_history client d = Inr events \<and>
           map_of source d = Some nd \<and>
           backfill_info lib s3 events (node_info nd) = Inr i' \<and>
           source' = AList.update d (nd\<lparr>node_info := i'\<rparr>) source"
  using assms unfolding append_body_def and_then_eq_Inr
  by (auto split: option.splits)

lemma append_loop_other:
  "append_loop lib client s3 ds source = Inr source' \<Longrightarrow> k \<notin> set ds \<Longrightarrow>
     map_of source' k = map_of source k"
proof (induction ds arbitrary: source)
  case Nil
  then show ?case by simp
next
  case (Cons d ds)
  then obtain s1 where b: "append_body lib client s3 d source = Inr s1"
    and l: "append_loop lib client s3 ds s1 = Inr source'"
    by (auto split: sum.splits)
  from append_body_Inr [OF b] Cons.prems(2) have "map_of s1 k = map_of source k"
    by (auto simp: update_conv')
  with Cons.IH [OF l] Cons.prems(2) show ?case by simp
qed

lemma append_loop_root:
  "append_loop lib client s3 ds source = Inr source' \<Longrightarrow> distinct ds \<Longrightarrow> d \<in> set ds \<Longrightarrow>
     \<exists>events nd i'. get_execution_history client d = Inr events \<and>
        map_of source d = Some nd \<and>
        backfill_info lib s3 events (node_info nd) = Inr i' \<and>
        map_of source' d = Some (nd\<lparr>node_info := i'\<rparr>)"
proof (induction ds arbitrary: source)
  case Nil
  then show ?case by simp
next
  case (Cons x ds)
  then obtain s1 where b: "append_body lib client s3 x source = Inr s1"
    and l: "append_loop lib client s3 ds s1 = Inr source'"
    by (auto split: sum.splits)
  from append_body_Inr [OF b] obtain events nd i' where
    h: "get_execution_history client x = Inr events" and n: "map_of source x = Some nd"
    and i: "backfill_info lib s3 events (node_info nd) = Inr i'"
    and u: "s1 = AList.update x (nd\<lparr>node_info := i'\<rparr>) source"
    by blast
  show ?case
  proof (cases "d = x")
    case True
    with Cons.prems(2) have "d \<notin> set ds" by simp
    from append_loop_other [OF l this] u True
    have "map_of source' d = Some (nd\<lparr>node_info := i'\<rparr>)"
      by (simp add: update_conv')
    with h n i True show ?thesis by blast
  next
    case False
    with Cons.prems have "distinct ds" "d \<in> set ds" by simp_all
    from Cons.IH [OF l this] u False show ?thesis
      by (simp add: update_conv')
  qed
qed

lemma append_metadata_root:
  assumes "distinct (map fst source)"
    and "append_metadata lib client s3 source = Inr source'"
    and "map_of source d = Some nd"
  shows "\<exists>events i'. get_execution_history client d = Inr events \<and>
           backfill_info lib s3 events (node_info nd) = Inr i' \<and>
           map_of source' d = Some (nd\<lparr>node_info := i'\<rparr>)"
proof -
  from assms(3) have "d \<in> set (map fst source)"
    by (auto dest: map_of_SomeD simp: image_iff intro: bexI [where x = "(d, nd)"])
  from append_loop_root [OF assms(2) [unfolded append_metadata_def] assms(1) this] assms(3)
  show ?thesis by auto
qed

lemma backfill_info_running:
  "map_of info0 ''status'' = Some (JStr ''RUNNING'') \<Longrightarrow>
     backfill_info lib s3 events info0 =
       Inr (AList.update ''queued_granules_count'' (JStr ''N/A'') info0)"
  by (simp add: backfill_info_def dict_get_def)


lemma backfill_info_Inr:
  assumes "map_of info0 ''status'' = Some st" and "st \<noteq> JStr ''RUNNING''"
    and "backfill_info lib s3 events info0 = Inr i'"
  shows "4 < length events \<and>
    (getitem (events ! 4) ''type'' = Inr (JStr ''LambdaFunctionSucceeded'') \<longrightarrow>
       (\<exists>n. granule_count lib s3 (events ! 4) = Inr n \<and>
            i' = AList.update ''queued_granules_count'' n info0)) \<and>
    (getitem (events ! 4) ''type'' \<noteq> Inr (JStr ''LambdaFunctionSucceeded'') \<longrightarrow>
       (\<exists>ty details cause.
          getitem (events ! 4) ''type'' = Inr ty \<and>
          getitem (events ! 4) ''lambdaFunctionFailedEventDetails'' = Inr details \<and>
          getitem details ''cause'' = Inr cause \<and>
          i' = AList.update ''queued_granules_count'' (JStr ''N/A'')
                 (AList.update ''fail'' cause info0)))"
  using assms
  by (auto simp: backfill_info_def dict_get_def list_get_def and_then_eq_Inr
           split: if_splits)

lemma has_key_Inr: "has_key j k = Inr b \<Longrightarrow> \<exists>kvs. j = JDict kvs \<and> b = (map_of kvs k \<noteq> None)"
  by (cases j) auto

lemma py_loads_Inr: "py_loads lib v = Inr j \<Longrightarrow> \<exists>s. v = JStr s \<and> loads lib s = Inr j"
  by (cases v) auto

lemma py_len_list: "py_len (JList xs) = Inr n \<Longrightarrow> n = int (length xs)"
  by simp

lemma granule_count_Inr:
  assumes "granule_count lib s3 ev = Inr n"
  shows "\<exists>details text output.
     getitem ev ''lambdaFunctionSucceededEventDetails'' = Inr details \<and>
     getitem details ''output'' = Inr (JStr text) \<and>
     loads lib text = Inr (JDict output) \<and>
     (map_of output ''payload'' \<noteq> None \<longrightarrow>
        (\<exists>m c cm tf.
           getitem (JDict output) ''meta'' = Inr m \<and> getitem m ''collection'' = Inr c \<and>
           getitem c ''meta'' = Inr cm \<and> getitem cm ''discover_tf'' = Inr tf \<and>
           getitem tf ''queued_granules_count'' = Inr n)) \<and>
     (map_of output ''payload'' = None \<and> map_of output ''replace'' \<noteq> None \<longrightarrow>
        (\<exists>r bucket key content j p gs len.
           getitem (JDict output) ''replace'' = Inr r \<and>
           getitem r ''Bucket'' = Inr bucket \<and> getitem r ''Key'' = Inr key \<and>
           s3 bucket key = Inr content \<and> loads lib content = Inr j \<and>
           getitem j ''payload'' = Inr p \<and> getitem p ''granules'' = Inr gs \<and>
           py_len gs = Inr len \<and> (\<forall>xs. gs = JList xs \<longrightarrow> len = int (length xs)) \<and>
           n = JInt len)) \<and>
     (map_of output ''payload'' = None \<and> map_of output ''replace'' = None \<longrightarrow>
        n = JStr ''REPLACE NOT FOUND'')"
proof -
  from assms obtain details output0 out has_payload where
    d: "getitem ev ''lambdaFunctionSucceededEventDetails'' = Inr details"
    and o: "getitem details ''output'' = Inr output0"
    and l: "py_loads lib output0 = Inr out"
    and h: "has_key out ''payload'' = Inr has_payload"
    and r: "(if has_payload then
         and_then (getitem out ''meta'') (\<lambda>m.
         and_then (getitem m ''collection'') (\<lambda>c.
         and_then (getitem c ''meta'') (\<lambda>cm.
         and_then (getitem cm ''discover_tf'') (\<lambda>tf.
         getitem tf ''queued_granules_count''))))
       else
         and_then (has_key out ''replace'') (\<lambda>has_replace.
           if has_replace then
             and_then (getitem out ''replace'') (\<lambda>r1.
             and_then (getitem r1 ''Bucket'') (\<lambda>bucket.
             and_then (getitem out ''replace'') (\<lambda>r2.
             and_then (getitem r2 ''Key'') (\<lambda>key.
             and_then (s3 bucket key) (\<lambda>object_content.
             and_then (loads lib object_content) (\<lambda>s3_download.
             and_then (getitem s3_download ''payload'') (\<lambda>p.
             and_then (getitem p ''granules'') (\<lambda>gs.
             and_then (py_len gs) (\<lambda>n. Inr (JInt n))))))))))
           else Inr (JStr ''REPLACE NOT FOUND''))) = Inr n"
    unfolding granule_count_def and_then_eq_Inr by blast
  from py_loads_Inr [OF l] obtain s0 where t: "output0 = JStr s0"
    and lt: "loads lib s0 = Inr out" by blast
  from has_key_Inr [OF h] obtain kvs where k: "out = JDict kvs"
    and hp: "has_payload = (map_of kvs ''payload'' \<noteq> None)" by blast
  have c1: "map_of kvs ''payload'' \<noteq> None \<longrightarrow>
        (\<exists>m c cm tf.
           getitem (JDict kvs) ''meta'' = Inr m \<and> getitem m ''collection'' = Inr c \<and>
           getitem c ''meta'' = Inr cm \<and> getitem cm ''discover_tf'' = Inr tf \<and>
           getitem tf ''queued_granules_count'' = Inr n)"
    using r hp k by (auto simp: and_then_eq_Inr)
  have c2: "map_of kvs ''payload'' = None \<and> map_of kvs ''replace'' \<noteq> None \<longrightarrow>
        (\<exists>r bucket key content j p gs len.
           getitem (JDict kvs) ''replace'' = Inr r \<and>
           getitem r ''Bucket'' = Inr bucket \<and> getitem r ''Key'' = Inr key \<and>
           s3 bucket key = Inr content \<and> loads lib content = Inr j \<and>
           getitem j ''payload'' = Inr p \<and> getitem p ''granules'' = Inr gs \<and>
           py_len gs = Inr len \<and> (\<forall>xs. gs = JList xs \<longrightarrow> len = int (length xs)) \<and>
           n = JInt len)"
  proof
    assume a: "map_of kvs ''payload'' = None \<and> map_of kvs ''replace'' \<noteq> None"
    with r hp k obtain r1 bucket r2 key content j p gs len where
      f: "getitem (JDict kvs) ''replace'' = Inr r1" "getitem r1 ''Bucket'' = Inr bucket"
      "getitem (JDict kvs) ''replace'' = Inr r2" "getitem r2 ''Key'' = Inr key"
      "s3 bucket key = Inr content" "loads lib content = Inr j"
      "getitem j ''payload'' = Inr p" "getitem p ''granules'' = Inr gs"
      "py_len gs = Inr len" "n = JInt len"
      by (auto simp: and_then_eq_Inr split: if_splits)
    from f(1,3) have "r2 = r1" by simp
    with f have "getitem (JDict kvs) ''replace'' = Inr r1 \<and>
           getitem r1 ''Bucket'' = Inr bucket \<and> getitem r1 ''Key'' = Inr key \<and>
           s3 bucket key = Inr content \<and> loads lib content = Inr j \<and>
           getitem j ''payload'' = Inr p \<and> getitem p ''granules'' = Inr gs \<and>
           py_len gs = Inr len \<and> (\<forall>xs. gs = JList xs \<longrightarrow> len = int (length xs)) \<and>
           n = JInt len"
      by auto
    then show "\<exists>r bucket key content j p gs len.
           getitem (JDict kvs) ''replace'' = Inr r \<and>
           getitem r ''Bucket'' = Inr bucket \<and> getitem r ''Key'' = Inr key \<and>
           s3 bucket key = Inr content \<and> loads lib content = Inr j \<and>
           getitem j ''payload'' = Inr p \<and> getitem p ''granules'' = Inr gs \<and>
           py_len gs = Inr len \<and> (\<forall>xs. gs = JList xs \<longrightarrow> len = int (length xs)) \<and>
           n = JInt len"
      by blast
  qed
  have c3: "map_of kvs ''payload'' = None \<and> map_of kvs ''replace'' = None \<longrightarrow>
        n = JStr ''REPLACE NOT FOUND''"
    using r hp k by auto
  have o': "getitem details ''output'' = Inr (JStr s0)" using o t by simp
  have l': "loads lib s0 = Inr (JDict kvs)" using lt k by simp
  note body = conjI [OF d conjI [OF o' conjI [OF l' conjI [OF c1 conjI [OF c2 c3]]]]]
  show ?thesis
    by (rule exI [of _ details], rule exI [of _ s0], rule exI [of _ kvs]) (rule body)
qed

lemmas example_backfill =
  append_metadata_def append_body_def backfill_info_def granule_count_def dict_get_def
  list_get_def example_client_def example_s3_def example_root_def events_before_def
  event_succeeded_def event_failed_def update_conv'

lemma example_backfilled:
  "\<exists>source'. append_metadata example_lib example_client example_s3
      [(''arn:r1'', example_root ''SUCCEEDED''), (''arn:r2'', example_root ''SUCCEEDED''),
       (''arn:r3'', example_root ''SUCCEEDED''), (''arn:r4'', example_root ''FAILED'')]
     = Inr source'"
  by (simp add: example_backfill loads6 loads7 loads8 loads9 json_count_def json_replace_def
        json_object_def json_neither_def)

text \<open>
  C1. When \<open>append_metadata\<close> returns, every root whose status is not RUNNING has a
  history of more than four events, and its \<^verbatim>\<open>info\<close> is updated from the event at
  index 4. If the type of that event is \<^verbatim>\<open>LambdaFunctionSucceeded\<close>, its output
  parses to a dict, and \<^verbatim>\<open>queued_granules_count\<close> is set: to the value at
  \<open>meta.collection.meta.discover_tf.queued_granules_count\<close> of the output when the
  output has the key \<^verbatim>\<open>payload\<close>; to the length of \<open>payload.granules\<close> of the
  JSON object fetched from the object store at the bucket and key under
  \<^verbatim>\<open>replace\<close> when it has no \<^verbatim>\<open>payload\<close> but has \<^verbatim>\<open>replace\<close>; to the
  string \<^verbatim>\<open>REPLACE NOT FOUND\<close> when it has neither. If the type is anything else,
  \<^verbatim>\<open>fail\<close> is set to the cause of the failure details and the count to
  \<^verbatim>\<open>N/A\<close>.
\<close>

theorem backfill_count:
  assumes "distinct (map fst source)"
    and "append_metadata lib client s3 source = Inr source'"
    and "map_of source d = Some nd"
    and "map_of (node_info nd) ''status'' = Some st"
    and "st \<noteq> JStr ''RUNNING''"
  shows "\<exists>events info'.
    get_execution_history client d = Inr events \<and> 4 < length events \<and>
    map_of source' d = Some (nd\<lparr>node_info := info'\<rparr>) \<and>
    (getitem (events ! 4) ''type'' = Inr (JStr ''LambdaFunctionSucceeded'') \<longrightarrow>
       (\<exists>n. info' = AList.update ''queued_granules_count'' n (node_info nd) \<and>
         (\<exists>details text output.
            getitem (events ! 4) ''lambdaFunctionSucceededEventDetails'' = Inr details \<and>
            getitem details ''output'' = Inr (JStr text) \<and>
            loads lib text = Inr (JDict output) \<and>
            (map_of output ''payload'' \<noteq> None \<longrightarrow>
               (\<exists>m c cm tf.
                  getitem (JDict output) ''meta'' = Inr m \<and>
                  getitem m ''collection'' = Inr c \<and>
                  getitem c ''meta'' = Inr cm \<and>
                  getitem cm ''discover_tf'' = Inr tf \<and>
                  getitem tf ''queued_granules_count'' = Inr n)) \<and>
            (map_of output ''payload'' = None \<and> map_of output ''replace'' \<noteq> None \<longrightarrow>
               (\<exists>r bucket key content j p gs len.
                  getitem (JDict output) ''replace'' = Inr r \<and>
                  getitem r ''Bucket'' = Inr bucket \<and> getitem r ''Key'' = Inr key \<and>
                  s3 bucket key = Inr content \<and> loads lib content = Inr j \<and>
                  getitem j ''payload'' = Inr p \<and> getitem p ''granules'' = Inr gs \<and>
                  py_len gs = Inr len \<and>
                  (\<forall>xs. gs = JList xs \<longrightarrow> len = int (length xs)) \<and>
                  n = JInt len)) \<and>
            (map_of output ''payload'' = None \<and> map_of output ''replace'' = None \<longrightarrow>
               n = JStr ''REPLACE NOT FOUND'')))) \<and>
    (getitem (events ! 4) ''type'' \<noteq> Inr (JStr ''LambdaFunctionSucceeded'') \<longrightarrow>
       (\<exists>ty details cause.
          getitem (events ! 4) ''type'' = Inr ty \<and>
          getitem (events ! 4) ''lambdaFunctionFailedEventDetails'' = Inr details \<and>
          getitem details ''cause'' = Inr cause \<and>
          info' = AList.update ''queued_granules_count'' (JStr ''N/A'')
                    (AList.update ''fail'' cause (node_info nd))))"
proof -
  from append_metadata_root [OF assms(1,2,3)] obtain events i' where
    h: "get_execution_history client d = Inr events"
    and b: "backfill_info lib s3 events (node_info nd) = Inr i'"
    and m: "map_of source' d = Some (nd\<lparr>node_info := i'\<rparr>)"
    by blast
  note r = backfill_info_Inr [OF assms(4,5) b]
  from r have len: "4 < length events" by blast
  from r have f: "getitem (events ! 4) ''type'' \<noteq> Inr (JStr ''LambdaFunctionSucceeded'') \<longrightarrow>
       (\<exists>ty details cause.
          getitem (events ! 4) ''type'' = Inr ty \<and>
          getitem (events ! 4) ''lambdaFunctionFailedEventDetails'' = Inr details \<and>
          getitem details ''cause'' = Inr cause \<and>
          i' = AList.update ''queued_granules_count'' (JStr ''N/A'')
                 (AList.update ''fail'' cause (node_info nd)))"
    by blast
  have s: "getitem (events ! 4) ''type'' = Inr (JStr ''LambdaFunctionSucceeded'') \<longrightarrow>
       (\<exists>n. i' = AList.update ''queued_granules_count'' n (node_info nd) \<and>
         (\<exists>details text output.
            getitem (events ! 4) ''lambdaFunctionSucceededEventDetails'' = Inr details \<and>
            getitem details ''output'' = Inr (JStr text) \<and>
            loads lib text = Inr (JDict output) \<and>
            (map_of output ''payload'' \<noteq> None \<longrightarrow>
               (\<exists>m c cm tf.
                  getitem (JDict output) ''meta'' = Inr m \<and>
                  getitem m ''collection'' = Inr c \<and>
                  getitem c ''meta'' = Inr cm \<and>
                  getitem cm ''discover_tf'' = Inr tf \<and>
                  getitem tf ''queued_granules_count'' = Inr n)) \<and>
            (map_of output ''payload'' = None \<and> map_of output ''replace'' \<noteq> None \<longrightarrow>
               (\<exists>r bucket key content j p gs len.
                  getitem (JDict output) ''replace'' = Inr r \<and>
                  getitem r ''Bucket'' = Inr bucket \<and> getitem r ''Key'' = Inr key \<and>
                  s3 bucket key = Inr content \<and> loads lib content = Inr j \<and>
                  getitem j ''payload'' = Inr p \<and> getitem p ''granules'' = Inr gs \<and>
                  py_len gs = Inr len \<and>
                  (\<forall>xs. gs = JList xs \<longrightarrow> len = int (length xs)) \<and>
                  n = JInt len)) \<and>
            (map_of output ''payload'' = None \<and> map_of output ''replace'' = None \<longrightarrow>
               n = JStr ''REPLACE NOT FOUND'')))"
  proof
    assume "getitem (events ! 4) ''type'' = Inr (JStr ''LambdaFunctionSucceeded'')"
    with r obtain n where g: "granule_count lib s3 (events ! 4) = Inr n"
      and i: "i' = AList.update ''queued_granules_count'' n (node_info nd)"
      by blast
    show "\<exists>n. i' = AList.update ''queued_granules_count'' n (node_info nd) \<and>
         (\<exists>details text output.
            getitem (events ! 4) ''lambdaFunctionSucceededEventDetails'' = Inr details \<and>
            getitem details ''output'' = Inr (JStr text) \<and>
            loads lib text = Inr (JDict output) \<and>
            (map_of output ''payload'' \<noteq> None \<longrightarrow>
               (\<exists>m c cm tf.
                  getitem (JDict output) ''meta'' = Inr m \<and>
                  getitem m ''collection'' = Inr c \<and>
                  getitem c ''meta'' = Inr cm \<and>
                  getitem cm ''discover_tf'' = Inr tf \<and>
                  getitem tf ''queued_granules_count'' = Inr n)) \<and>
            (map_of output ''payload'' = None \<and> map_of output ''replace'' \<noteq> None \<longrightarrow>
               (\<exists>r bucket key content j p gs len.
                  getitem (JDict output) ''replace'' = Inr r \<and>
                  getitem r ''Bucket'' = Inr bucket \<and> getitem r ''Key'' = Inr key \<and>
                  s3 bucket key = Inr content \<and> loads lib content = Inr j \<and>
                  getitem j ''payload'' = Inr p \<and> getitem p ''granules'' = Inr gs \<and>
                  py_len gs = Inr len \<and>
                  (\<forall>xs. gs = JList xs \<longrightarrow> len = int (length xs)) \<and>
                  n = JInt len)) \<and>
            (map_of output ''payload'' = None \<and> map_of output ''replace'' = None \<longrightarrow>
               n = JStr ''REPLACE NOT FOUND''))"
      by (rule exI [of _ n]) (rule conjI [OF i granule_count_Inr [OF g]])
  qed
  note body = conjI [OF h conjI [OF len conjI [OF m conjI [OF s f]]]]
  show ?thesis
    by (rule exI [of _ events], rule exI [of _ i']) (rule body)
qed

theorem backfill_count_witness:
  "\<exists>source' n1 n2 n3 n4.
     append_metadata example_lib example_client example_s3
      [(''arn:r1'', example_root ''SUCCEEDED''), (''arn:r2'', example_root ''SUCCEEDED''),
       (''arn:r3'', example_root ''SUCCEEDED''), (''arn:r4'', example_root ''FAILED'')]
       = Inr source' \<and>
     map_of source' ''arn:r1'' = Some n1 \<and>
     map_of (node_info n1) ''queued_granules_count'' = Some (JInt 7) \<and>
     map_of source' ''arn:r2'' = Some n2 \<and>
     map_of (node_info n2) ''queued_granules_count'' = Some (JInt 3) \<and>
     map_of source' ''arn:r3'' = Some n3 \<and>
     map_of (node_info n3) ''queued_granules_count'' = Some (JStr ''REPLACE NOT FOUND'') \<and>
     map_of source' ''arn:r4'' = Some n4 \<and>
     map_of (node_info n4) ''queued_granules_count'' = Some (JStr ''N/A'') \<and>
     map_of (node_info n4) ''fail'' = Some (JStr ''boom'')"
proof -
  let ?src = "[(''arn:r1'', example_root ''SUCCEEDED''), (''arn:r2'', example_root ''SUCCEEDED''),
       (''arn:r3'', example_root ''SUCCEEDED''), (''arn:r4'', example_root ''FAILED'')]"
  from example_backfilled obtain source' where
    f: "append_metadata example_lib example_client example_s3 ?src = Inr source'" by blast
  have d: "distinct (map fst ?src)" by simp
  have s: "map_of (node_info (example_root ''SUCCEEDED'')) ''status'' = Some (JStr ''SUCCEEDED'')"
    "map_of (node_info (example_root ''FAILED'')) ''status'' = Some (JStr ''FAILED'')"
    by (simp_all add: example_root_def)
  have r: "JStr ''SUCCEEDED'' \<noteq> JStr ''RUNNING''" "JStr ''FAILED'' \<noteq> JStr ''RUNNING''"
    by simp_all
  have m: "map_of ?src ''arn:r1'' = Some (example_root ''SUCCEEDED'')"
    "map_of ?src ''arn:r2'' = Some (example_root ''SUCCEEDED'')"
    "map_of ?src ''arn:r3'' = Some (example_root ''SUCCEEDED'')"
    "map_of ?src ''arn:r4'' = Some (example_root ''FAILED'')"
    by simp_all
  from backfill_count [OF d f m(1) s(1) r(1)]
  have c1: "\<exists>n1. map_of source' ''arn:r1'' = Some n1 \<and>
     map_of (node_info n1) ''queued_granules_count'' = Some (JInt 7)"
    by (auto simp: example_client_def events_before_def event_succeeded_def loads6
          json_count_def update_conv')
  from backfill_count [OF d f m(2) s(1) r(1)]
  have c2: "\<exists>n2. map_of source' ''arn:r2'' = Some n2 \<and>
     map_of (node_info n2) ''queued_granules_count'' = Some (JInt 3)"
    by (auto simp: example_client_def example_s3_def events_before_def event_succeeded_def
          loads7 loads8 json_replace_def json_object_def update_conv')
  from backfill_count [OF d f m(3) s(1) r(1)]
  have c3: "\<exists>n3. map_of source' ''arn:r3'' = Some n3 \<and>
     map_of (node_info n3) ''queued_granules_count'' = Some (JStr ''REPLACE NOT FOUND'')"
    by (auto simp: example_client_def events_before_def event_succeeded_def loads9
          json_neither_def update_conv')
  from backfill_count [OF d f m(4) s(2) r(2)]
  have c4: "\<exists>n4. map_of source' ''arn:r4'' = Some n4 \<and>
     map_of (node_info n4) ''queued_granules_count'' = Some (JStr ''N/A'') \<and>
     map_of (node_info n4) ''fail'' = Some (JStr ''boom'')"
    by (auto simp: example_client_def events_before_def event_failed_def update_conv')
  from f c1 c2 c3 c4 show ?thesis by blast
qed










text \<open>
  C6, as the code has it. The history of every root is fetched before its status is read.
  When \<open>append_metadata\<close> returns, the history lookup of a RUNNING root has returned,
  no event of it has been read (the new \<^verbatim>\<open>info\<close> is the same for every list of
  events): \<^verbatim>\<open>queued_granules_count\<close> is set to \<^verbatim>\<open>N/A\<close>, and the \<^verbatim>\<open>fail\<close>
  field is as it was.
\<close>

theorem running_root_backfill:
  assumes "distinct (map fst source)"
    and "map_of source d = Some nd"
    and "map_of (node_info nd) ''status'' = Some (JStr ''RUNNING'')"
    and "append_metadata lib client s3 source = Inr source'"
  shows "(\<exists>events. get_execution_history client d = Inr events) \<and>
         map_of source' d =
           Some (nd\<lparr>node_info :=
                      AList.update ''queued_granules_count'' (JStr ''N/A'') (node_info nd)\<rparr>) \<and>
         (\<forall>events. backfill_info lib s3 events (node_info nd) =
              Inr (AList.update ''queued_granules_count'' (JStr ''N/A'') (node_info nd))) \<and>
         map_of (AList.update ''queued_granules_count'' (JStr ''N/A'') (node_info nd)) ''fail''
           = map_of (node_info nd) ''fail''"
  using append_metadata_root [OF assms(1,4,2)] backfill_info_running [OF assms(3)]
  by (auto simp: update_conv')

theorem running_root_backfill_witness:
  "\<exists>source'.
     append_metadata example_lib example_client example_s3
       [(''arn:r5'', example_root ''RUNNING''), (''arn:r1'', example_root ''SUCCEEDED'')]
       = Inr source' \<and>
     get_execution_history example_client ''arn:r5'' = Inr [] \<and>
     map_of source' ''arn:r5'' =
       Some ((example_root ''RUNNING'')
               \<lparr>node_info := node_info (example_root ''RUNNING'') @
                               [(''queued_granules_count'', JStr ''N/A'')]\<rparr>) \<and>
     map_of (node_info (example_root ''RUNNING'') @
               [(''queued_granules_count'', JStr ''N/A'')]) ''fail'' = None"
proof -
  let ?src = "[(''arn:r5'', example_root ''RUNNING''), (''arn:r1'', example_root ''SUCCEEDED'')]"
  obtain source' where
    f: "append_metadata example_lib example_client example_s3 ?src = Inr source'"
    by (simp add: example_backfill loads6 json_count_def)
  have d: "distinct (map fst ?src)" by simp
  have m: "map_of ?src ''arn:r5'' = Some (example_root ''RUNNING'')" by simp
  have s: "map_of (node_info (example_root ''RUNNING'')) ''status'' = Some (JStr ''RUNNING'')"
    by (simp add: example_root_def)
  have u: "AList.update ''queued_granules_count'' (JStr ''N/A'')
             (node_info (example_root ''RUNNING'')) =
           node_info (example_root ''RUNNING'') @ [(''queued_granules_count'', JStr ''N/A'')]"
    by (simp add: example_root_def)
  have h: "get_execution_history example_client ''arn:r5'' = Inr []"
    by (simp add: example_client_def)
  from running_root_backfill [OF d m s f] f h show ?thesis
    unfolding u by (simp add: example_root_def)
qed

text \<open>
  C6 as stated fails: the lookup is needed. When the history lookup of a RUNNING root
  raises, the pass raises and the count is not set.
\<close>

theorem running_root_lookup_counterexample:
  "map_of (node_info (example_root ''RUNNING'')) ''status'' = Some (JStr ''RUNNING'') \<and>
   append_metadata example_lib example_client example_s3 [(''arn:r7'', example_root ''RUNNING'')]
     = Inl ClientError"
  by (simp add: example_backfill)

end
